theory Spec2Isabelle
  imports Main
begin

section \<open>Constants of the workflow (config/constants.js)\<close>

text \<open>
  \<^verbatim>\<open>ROLES\<close>, \<^verbatim>\<open>STATUS\<close>, \<^verbatim>\<open>PRIORITY\<close> and \<^verbatim>\<open>CATEGORY\<close> are constant objects used as
  enumerations. The values that reach the workflow code are exactly these: a role is read
  from \<^verbatim>\<open>users.role\<close> (a CHECK constraint admits the four roles), a target status and a
  priority from a request body validated with \<^verbatim>\<open>isIn(Object.values(...))\<close>, a current
  status from \<^verbatim>\<open>cases.status\<close>, which is only ever written with one of the five values.
  Each enumeration is a datatype; the \<open>_str\<close> functions give the JavaScript string.
\<close>

datatype role = Requester | Analyst | Manager | Admin

datatype status = Created | Assigned | InProgress | UnderReview | Closed

datatype priority = Low | Medium | High | Critical

datatype category = IT | HR | Finance | Compliance | Other

fun role_str :: "role \<Rightarrow> string" where
  "role_str Requester = ''requester''"
| "role_str Analyst = ''analyst''"
| "role_str Manager = ''manager''"
| "role_str Admin = ''admin''"

fun status_str :: "status \<Rightarrow> string" where
  "status_str Created = ''Created''"
| "status_str Assigned = ''Assigned''"
| "status_str InProgress = ''In Progress''"
| "status_str UnderReview = ''Under Review''"
| "status_str Closed = ''Closed''"


text \<open>
  \<^verbatim>\<open>TRANSITIONS\<close>: \<^verbatim>\<open>{ [fromStatus]: { [toStatus]: [allowedRoles] } }\<close>. A JavaScript object
  with string keys keeps them in insertion order (\<^verbatim>\<open>Object.keys\<close>, \<^verbatim>\<open>Object.entries\<close>),
  so each object is an association list in the order of the literal.
\<close>

definition TRANSITIONS :: "(status \<times> (status \<times> role list) list) list" where
  "TRANSITIONS =
    [(Created, [(Assigned, [Manager, Admin])]),
     (Assigned, [(InProgress, [Analyst])]),
     (InProgress, [(UnderReview, [Analyst])]),
     (UnderReview, [(Closed, [Manager, Admin]),
                    (InProgress, [Manager, Admin])])]"

section \<open>WorkflowService (class \<^verbatim>\<open>WorkflowService\<close> of services/audit.service.js)\<close>

text \<open>\<^verbatim>\<open>Array.prototype.join\<close> on an array of strings.\<close>

fun join :: "string \<Rightarrow> string list \<Rightarrow> string" where
  "join sep [] = []"
| "join sep [x] = x"
| "join sep (x # y # ys) = x @ sep @ join sep (y # ys)"

text \<open>A template literal's \<^verbatim>\<open>'${x}'\<close>: the value between two apostrophes.\<close>

definition quoted :: "string \<Rightarrow> string" where
  "quoted s = [CHR 0x27] @ s @ [CHR 0x27]"

text \<open>
  The objects \<^verbatim>\<open>{ valid, reason? }\<close> of \<^verbatim>\<open>canTransition\<close> and \<^verbatim>\<open>{ valid, errors }\<close> of
  \<^verbatim>\<open>validateTransitionRequirements\<close>.
\<close>

record check =
  valid :: bool

record transition_check = check +
  reason :: "string option"

record requirements_check = check +
  errors :: "string list"

definition canTransition :: "status \<Rightarrow> status \<Rightarrow> role \<Rightarrow> transition_check" where
  "canTransition currentStatus targetStatus userRole =
    (case map_of TRANSITIONS currentStatus of
       None \<Rightarrow>
         \<lparr>valid = False,
          reason = Some (''No transitions available from status: '' @ status_str currentStatus)\<rparr>
     | Some destinations \<Rightarrow>
         (case map_of destinations targetStatus of
            None \<Rightarrow>
              \<lparr>valid = False,
               reason = Some (''Cannot transition from '' @ quoted (status_str currentStatus)
                 @ '' to '' @ quoted (status_str targetStatus)
                 @ ''. Valid destinations: ''
                 @ join '', '' (map (status_str \<circ> fst) destinations))\<rparr>
          | Some allowedRoles \<Rightarrow>
              if userRole \<notin> set allowedRoles then
                \<lparr>valid = False,
                 reason = Some (''Role '' @ quoted (role_str userRole)
                   @ '' is not authorized for this transition. Required: ''
                   @ join '' or '' (map role_str allowedRoles))\<rparr>
              else \<lparr>valid = True, reason = None\<rparr>))"

text \<open>
  The loop of \<^verbatim>\<open>getAvailableTransitions\<close> over \<^verbatim>\<open>Object.entries\<close>, pushing each target
  whose role array includes the role.
\<close>

fun available_loop :: "(status \<times> role list) list \<Rightarrow> role \<Rightarrow> status list \<Rightarrow> status list" where
  "available_loop [] userRole available = available"
| "available_loop ((targetStatus, allowedRoles) # entries) userRole available =
     available_loop entries userRole
       (if userRole \<in> set allowedRoles then available @ [targetStatus] else available)"

definition getAvailableTransitions :: "status \<Rightarrow> role \<Rightarrow> status list" where
  "getAvailableTransitions currentStatus userRole =
    (case map_of TRANSITIONS currentStatus of
       None \<Rightarrow> []
     | Some destinations \<Rightarrow> available_loop destinations userRole [])"

definition getAllStatuses :: "status list" where
  "getAllStatuses = [Created, Assigned, InProgress, UnderReview, Closed]"

definition canAssign :: "status \<Rightarrow> bool" where
  "canAssign currentStatus = (currentStatus = Created)"

section \<open>Tables of the database (migrations/run.js)\<close>

text \<open>
  A row of \<^verbatim>\<open>cases\<close> without its primary key \<^verbatim>\<open>id\<close>, which is the key of the table
  below. \<^verbatim>\<open>assigned_to\<close> and \<^verbatim>\<open>sla_due_at\<close> are nullable. Times are milliseconds since
  the epoch, the resolution of a JavaScript \<^verbatim>\<open>Date\<close>.
\<close>

record case_row =
  case_id :: string
  title :: string
  description :: "string option"
  category :: category
  priority :: priority
  status :: status
  assigned_to :: "nat option"
  created_by :: nat
  sla_due_at :: "int option"
  created_at :: int
  updated_at :: int

text \<open>The columns of \<^verbatim>\<open>users\<close> that the case routes select: \<^verbatim>\<open>name\<close> and \<^verbatim>\<open>role\<close>.\<close>

record user_row =
  user_name :: string
  user_role :: role

datatype audit_action =
  CASE_CREATED | STATUS_CHANGED | CASE_ASSIGNED | CASE_UPDATED | COMMENT_ADDED

text \<open>
  The \<^verbatim>\<open>details\<close> objects that the modelled routes pass to the audit service (stored as
  \<^verbatim>\<open>JSON.stringify(details)\<close>): the default \<^verbatim>\<open>{}\<close>, \<^verbatim>\<open>{ assigneeName }\<close>, \<^verbatim>\<open>{ reason }\<close> and
  \<^verbatim>\<open>{ changes: { title, description, category, priority } }\<close>.
\<close>

datatype details =
  EmptyDetails
| AssigneeName string
| Reason string
| Changes "string option" "string option" "category option" "priority option"

text \<open>
  A row of \<^verbatim>\<open>case_audit_log\<close> without its serial \<^verbatim>\<open>id\<close>. The columns an \<^verbatim>\<open>INSERT\<close> leaves
  \<^verbatim>\<open>undefined\<close> are \<^verbatim>\<open>NULL\<close>; \<^verbatim>\<open>timestamp\<close> defaults to \<^verbatim>\<open>NOW()\<close>.
\<close>

record audit_entry =
  log_case_id :: nat
  action :: audit_action
  previous_status :: "status option"
  new_status :: "status option"
  previous_assignee :: "nat option"
  new_assignee :: "nat option"
  performed_by :: nat
  log_details :: details
  log_timestamp :: int

text \<open>
  The database: \<^verbatim>\<open>cases\<close> and \<^verbatim>\<open>users\<close> by primary key, \<^verbatim>\<open>case_audit_log\<close> in the order of
  insertion.
\<close>

record db =
  cases :: "nat \<rightharpoonup> case_row"
  users :: "nat \<rightharpoonup> user_row"
  case_audit_log :: "audit_entry list"

section \<open>Requirement validation (class \<^verbatim>\<open>WorkflowService\<close>)\<close>

text \<open>
  \<^verbatim>\<open>!caseData.assigned_to\<close> is JavaScript falsiness of a nullable integer: true for
  \<^verbatim>\<open>null\<close> and for \<^verbatim>\<open>0\<close>.
\<close>

definition falsy_id :: "nat option \<Rightarrow> bool" where
  "falsy_id v = (case v of None \<Rightarrow> True | Some n \<Rightarrow> n = 0)"

definition validateTransitionRequirements :: "case_row \<Rightarrow> status \<Rightarrow> requirements_check" where
  "validateTransitionRequirements caseData targetStatus =
    (let errors0 = [];
         errors1 =
           (if targetStatus = Assigned \<and> falsy_id (assigned_to caseData)
            then errors0 @ [''Case must have an assignee before setting status to Assigned'']
            else errors0);
         errors2 =
           (if targetStatus = Closed \<and> status caseData \<noteq> UnderReview
            then errors1 @ [''Case must be Under Review before closing'']
            else errors1)
     in \<lparr>valid = (length errors2 = 0), errors = errors2\<rparr>)"

section \<open>SLA clock (case routes of routes/users.routes.js, config/constants.js)\<close>





text \<open>
  A \<^verbatim>\<open>Date\<close> is its time value, milliseconds since the epoch. \<^verbatim>\<open>getHours\<close> and
  \<^verbatim>\<open>setHours\<close> work on the local time of the server's zone, which the language defines
  through two offsets in milliseconds: \<open>offset_at t\<close>, the offset of local time from UTC at
  the instant \<open>t\<close> (\<^verbatim>\<open>LocalTZA(t, true)\<close>), and \<open>offset_of_local w\<close>, the offset that belongs
  to the local time value \<open>w\<close> (\<^verbatim>\<open>LocalTZA(w, false)\<close>; for a local time that a change of
  offset skips or repeats, the offset before the change). Both are parameters: in a zone
  with daylight saving they are not constant.
\<close>

record time_zone =
  offset_at :: "int \<Rightarrow> int"
  offset_of_local :: "int \<Rightarrow> int"

definition msPerHour :: int where
  "msPerHour = 3600000"








text \<open>
  The \<^verbatim>\<open>sla_status\<close> column of \<^verbatim>\<open>GET /api/cases\<close>, a SQL \<^verbatim>\<open>CASE\<close> over \<^verbatim>\<open>c.status\<close>,
  \<^verbatim>\<open>c.priority\<close> and the nullable \<^verbatim>\<open>c.sla_due_at\<close>, with \<^verbatim>\<open>NOW()\<close> as the parameter \<open>now\<close>.
  A comparison with \<^verbatim>\<open>NULL\<close> is unknown, and a \<^verbatim>\<open>WHEN\<close> is taken only when its condition
  is true.
\<close>

definition sql_lt :: "int option \<Rightarrow> int option \<Rightarrow> bool option" where
  "sql_lt a b =
    (case a of None \<Rightarrow> None
     | Some x \<Rightarrow> (case b of None \<Rightarrow> None | Some y \<Rightarrow> Some (x < y)))"

definition is_true :: "bool option \<Rightarrow> bool" where
  "is_true v = (v = Some True)"

definition interval_hours :: "int \<Rightarrow> int" where
  "interval_hours n = n * msPerHour"

definition sla_status :: "int \<Rightarrow> status \<Rightarrow> priority \<Rightarrow> int option \<Rightarrow> string" where
  "sla_status now c_status c_priority c_sla_due_at =
    (if c_status = Closed then ''closed''
     else if is_true (sql_lt c_sla_due_at (Some now)) then ''overdue''
     else if c_priority = Critical
        \<and> is_true (sql_lt c_sla_due_at (Some (now + interval_hours 1))) then ''at_risk''
     else if c_priority = High
        \<and> is_true (sql_lt c_sla_due_at (Some (now + interval_hours 2))) then ''at_risk''
     else if c_priority = Medium
        \<and> is_true (sql_lt c_sla_due_at (Some (now + interval_hours 6))) then ''at_risk''
     else if c_priority = Low
        \<and> is_true (sql_lt c_sla_due_at (Some (now + interval_hours 12))) then ''at_risk''
     else ''on_track'')"

text \<open>
  The \<^verbatim>\<open>sla_status\<close> column of the four queries of \<^verbatim>\<open>GET /api/dashboard/my-pending-actions\<close>
  (routes/dashboard.routes.js): the same \<^verbatim>\<open>CASE\<close> without the branch for closed cases,
  which the \<^verbatim>\<open>WHERE\<close> of each query leaves out.
\<close>

definition pending_sla_status :: "int \<Rightarrow> priority \<Rightarrow> int option \<Rightarrow> string" where
  "pending_sla_status now c_priority c_sla_due_at =
    (if is_true (sql_lt c_sla_due_at (Some now)) then ''overdue''
     else if c_priority = Critical
        \<and> is_true (sql_lt c_sla_due_at (Some (now + interval_hours 1))) then ''at_risk''
     else if c_priority = High
        \<and> is_true (sql_lt c_sla_due_at (Some (now + interval_hours 2))) then ''at_risk''
     else if c_priority = Medium
        \<and> is_true (sql_lt c_sla_due_at (Some (now + interval_hours 6))) then ''at_risk''
     else if c_priority = Low
        \<and> is_true (sql_lt c_sla_due_at (Some (now + interval_hours 12))) then ''at_risk''
     else ''on_track'')"

text \<open>
  \<^verbatim>\<open>GET /api/dashboard/sla-breaches\<close> (routes/dashboard.routes.js): the \<^verbatim>\<open>WHERE\<close> of the query
  (\<^verbatim>\<open>c.status NOT IN ('Closed')\<close> and a due date before \<^verbatim>\<open>NOW()\<close> or before
  \<^verbatim>\<open>NOW() + INTERVAL '24 hours'\<close>), its \<^verbatim>\<open>sla_status\<close> column, and the two together: the
  label of a case in the answer, \<open>None\<close> for a case that is not in it.
\<close>

definition sla_breaches_where :: "int \<Rightarrow> status \<Rightarrow> int option \<Rightarrow> bool" where
  "sla_breaches_where now c_status c_sla_due_at =
    (c_status \<notin> set [Closed]
     \<and> (is_true (sql_lt c_sla_due_at (Some now))
        \<or> is_true (sql_lt c_sla_due_at (Some (now + interval_hours 24)))))"

definition sla_breaches_status :: "int \<Rightarrow> int option \<Rightarrow> string" where
  "sla_breaches_status now c_sla_due_at =
    (if is_true (sql_lt c_sla_due_at (Some now)) then ''breached''
     else if is_true (sql_lt c_sla_due_at (Some (now + interval_hours 4))) then ''at_risk''
     else ''on_track'')"

definition sla_breaches_row :: "int \<Rightarrow> status \<Rightarrow> int option \<Rightarrow> string option" where
  "sla_breaches_row now c_status c_sla_due_at =
    (if sla_breaches_where now c_status c_sla_due_at
     then Some (sla_breaches_status now c_sla_due_at) else None)"

section \<open>AuditService (class \<^verbatim>\<open>AuditService\<close> of services/audit.service.js)\<close>

text \<open>
  What a request handler takes from its surroundings: the JavaScript clock
  (\<^verbatim>\<open>new Date()\<close>), the zone of the server, and for the \<open>n\<close>-th \<^verbatim>\<open>db.query\<close> of the
  handler the database's \<^verbatim>\<open>NOW()\<close> and whether the query rejects (the database or the
  connection is unavailable). Every \<^verbatim>\<open>db.query\<close> goes to the pool on its own: one
  statement, committed by itself; a statement that rejects changes nothing.

  A \<^verbatim>\<open>Date\<close> passed as a query parameter reaches a column of type \<^verbatim>\<open>TIMESTAMP\<close> (without
  time zone) through the database driver, which is not code of the repository: what the
  column then holds is \<open>to_timestamp\<close> of the date, a parameter.
\<close>

record env =
  clock_now :: int
  zone :: time_zone
  to_timestamp :: "int \<Rightarrow> int"
  db_now :: "nat \<Rightarrow> int"
  fails :: "nat \<Rightarrow> bool"

text \<open>
  \<^verbatim>\<open>AuditService.log\<close>: one \<^verbatim>\<open>INSERT INTO case_audit_log\<close>, as query \<open>n\<close> of the handler;
  \<open>None\<close> when the query rejects.
\<close>

definition AuditService_log ::
  "env \<Rightarrow> nat \<Rightarrow> nat \<Rightarrow> audit_action \<Rightarrow> status option \<Rightarrow> status option
    \<Rightarrow> nat option \<Rightarrow> nat option \<Rightarrow> nat \<Rightarrow> details \<Rightarrow> db \<Rightarrow> db option" where
  "AuditService_log e n caseId act previousStatus newStatus previousAssignee newAssignee
      performedBy dets d =
    (if fails e n then None
     else Some (d\<lparr>case_audit_log := case_audit_log d @
       [\<lparr>log_case_id = caseId, action = act,
         previous_status = previousStatus, new_status = newStatus,
         previous_assignee = previousAssignee, new_assignee = newAssignee,
         performed_by = performedBy, log_details = dets,
         log_timestamp = db_now e n\<rparr>]\<rparr>))"

definition logStatusChange ::
  "env \<Rightarrow> nat \<Rightarrow> nat \<Rightarrow> status \<Rightarrow> status \<Rightarrow> nat \<Rightarrow> details \<Rightarrow> db \<Rightarrow> db option" where
  "logStatusChange e n caseId previousStatus newStatus performedBy dets =
    AuditService_log e n caseId STATUS_CHANGED (Some previousStatus) (Some newStatus)
      None None performedBy dets"

definition logAssignment ::
  "env \<Rightarrow> nat \<Rightarrow> nat \<Rightarrow> nat option \<Rightarrow> nat \<Rightarrow> nat \<Rightarrow> details \<Rightarrow> db \<Rightarrow> db option" where
  "logAssignment e n caseId previousAssignee newAssignee performedBy dets =
    AuditService_log e n caseId CASE_ASSIGNED None None
      previousAssignee (Some newAssignee) performedBy dets"

definition logCaseUpdate ::
  "env \<Rightarrow> nat \<Rightarrow> nat \<Rightarrow> nat \<Rightarrow> details \<Rightarrow> db \<Rightarrow> db option" where
  "logCaseUpdate e n caseId performedBy dets =
    AuditService_log e n caseId CASE_UPDATED None None None None performedBy dets"

section \<open>Case routes (routes/users.routes.js)\<close>

text \<open>
  \<^verbatim>\<open>req.user\<close>, as \<^verbatim>\<open>authenticate\<close> attaches it. A handler answers with \<^verbatim>\<open>res.json\<close>
  (\<open>Ok\<close>: the message and the updated row), with \<^verbatim>\<open>res.status(code).json\<close> (\<open>Rejected\<close>: the
  code, the error and its reason or errors), or passes a rejected query to \<^verbatim>\<open>next(error)\<close>
  (\<open>Failed\<close>). A handler is modelled from the point where \<^verbatim>\<open>validationResult(req)\<close> is
  empty, and returns its answer with the database it leaves. The parameter \<^verbatim>\<open>id\<close> of the
  route is \<open>cid\<close>.
\<close>

record req_user =
  req_id :: nat
  req_role :: role

datatype response =
  Ok string case_row
| Rejected nat string "string list"
| Failed

text \<open>\<^verbatim>\<open>PUT /api/cases/:id/status\<close>.\<close>

definition put_status :: "env \<Rightarrow> req_user \<Rightarrow> nat \<Rightarrow> status \<Rightarrow> db \<Rightarrow> response \<times> db" where
  "put_status e user cid targetStatus d =
    (if fails e 0 then (Failed, d)
     else case cases d cid of
       None \<Rightarrow> (Rejected 404 ''Case not found'' [], d)
     | Some caseData \<Rightarrow>
         (let previousStatus = status caseData;
              transitionCheck = canTransition previousStatus targetStatus (req_role user)
          in if \<not> valid transitionCheck
             then (Rejected 403 ''Invalid transition''
                     (case reason transitionCheck of None \<Rightarrow> [] | Some r \<Rightarrow> [r]), d)
             else
               (let requirementsCheck = validateTransitionRequirements caseData targetStatus
                in if \<not> valid requirementsCheck
                   then (Rejected 400 ''Transition requirements not met''
                           (errors requirementsCheck), d)
                   else if fails e 1 then (Failed, d)
                   else
                     (let row = caseData\<lparr>status := targetStatus, updated_at := db_now e 1\<rparr>;
                          d1 = d\<lparr>cases := (cases d)(cid \<mapsto> row)\<rparr>
                      in case logStatusChange e 2 cid previousStatus targetStatus
                                (req_id user) EmptyDetails d1 of
                           None \<Rightarrow> (Failed, d1)
                         | Some d2 \<Rightarrow>
                             (Ok (''Case transitioned from '' @ quoted (status_str previousStatus)
                                   @ '' to '' @ quoted (status_str targetStatus)) row, d2)))))"

text \<open>
  \<^verbatim>\<open>PUT /api/cases/:id/assign\<close>, behind \<^verbatim>\<open>requireManager\<close>
  (\<^verbatim>\<open>requireRole(ROLES.MANAGER, ROLES.ADMIN)\<close>).
\<close>

definition put_assign :: "env \<Rightarrow> req_user \<Rightarrow> nat \<Rightarrow> nat \<Rightarrow> db \<Rightarrow> response \<times> db" where
  "put_assign e user cid assigneeId d =
    (if req_role user \<notin> set [Manager, Admin]
     then (Rejected 403 ''Access denied''
             [''Required role: '' @ join '' or '' (map role_str [Manager, Admin])
               @ ''. Your role: '' @ role_str (req_role user)], d)
     else if fails e 0 then (Failed, d)
     else case cases d cid of
       None \<Rightarrow> (Rejected 404 ''Case not found'' [], d)
     | Some caseData \<Rightarrow>
         (if fails e 1 then (Failed, d)
          else case users d assigneeId of
            None \<Rightarrow> (Rejected 404 ''Assignee not found'' [], d)
          | Some assignee \<Rightarrow>
             if user_role assignee \<noteq> Analyst
             then (Rejected 400 ''Can only assign cases to analysts'' [], d)
             else
               (let previousAssignee = assigned_to caseData;
                    newStatus = (if status caseData = Created then Assigned
                                 else status caseData)
                in if fails e 2 then (Failed, d)
                   else
                     (let row = caseData\<lparr>assigned_to := Some assigneeId, status := newStatus,
                                  updated_at := db_now e 2\<rparr>;
                          d1 = d\<lparr>cases := (cases d)(cid \<mapsto> row)\<rparr>;
                          message = ''Case assigned to '' @ user_name assignee
                      in case logAssignment e 3 cid previousAssignee assigneeId (req_id user)
                                (AssigneeName (user_name assignee)) d1 of
                           None \<Rightarrow> (Failed, d1)
                         | Some d2 \<Rightarrow>
                             if newStatus \<noteq> status caseData
                             then (case logStatusChange e 4 cid (status caseData) newStatus
                                          (req_id user)
                                          (Reason ''Auto-transitioned on assignment'') d2 of
                                     None \<Rightarrow> (Failed, d2)
                                   | Some d3 \<Rightarrow> (Ok message row, d3))
                             else (Ok message row, d2)))))"




section \<open>The specification's tables and decisions\<close>

text \<open>
  The definitions of this section follow the words of the specification, not the code;
  the theorems below compare the code with them.
\<close>

text \<open>The five declared edges with their authorized roles, in the order of the table.\<close>

definition declared_edges :: "(status \<times> status \<times> role list) list" where
  "declared_edges =
    [(Created, Assigned, [Manager, Admin]),
     (Assigned, InProgress, [Analyst]),
     (InProgress, UnderReview, [Analyst]),
     (UnderReview, Closed, [Manager, Admin]),
     (UnderReview, InProgress, [Manager, Admin])]"

definition edges_from :: "status \<Rightarrow> (status \<times> status \<times> role list) list" where
  "edges_from f = filter (\<lambda>(a, b, rs). a = f) declared_edges"

text \<open>
  The three reasons of a denial: the source has no outgoing edge; the edge is not declared
  (with the valid destinations); the role is not authorized (with the required roles).
\<close>

datatype denial =
  NoOutgoingEdges
| NotAnEdge "status list"
| RoleNotAuthorized "role list"

datatype decision = Allowed | Denied denial

definition decide :: "status \<Rightarrow> status \<Rightarrow> role \<Rightarrow> decision" where
  "decide f t r =
    (if edges_from f = [] then Denied NoOutgoingEdges
     else case find (\<lambda>(a, b, rs). b = t) (edges_from f) of
       None \<Rightarrow> Denied (NotAnEdge (map (\<lambda>(a, b, rs). b) (edges_from f)))
     | Some (a, b, rs) \<Rightarrow>
         if r \<in> set rs then Allowed else Denied (RoleNotAuthorized rs))"

text \<open>The message of each reason, as the service words it.\<close>

fun denial_message :: "status \<Rightarrow> status \<Rightarrow> role \<Rightarrow> denial \<Rightarrow> string" where
  "denial_message f t r NoOutgoingEdges =
     ''No transitions available from status: '' @ status_str f"
| "denial_message f t r (NotAnEdge ds) =
     ''Cannot transition from '' @ quoted (status_str f) @ '' to '' @ quoted (status_str t)
       @ ''. Valid destinations: '' @ join '', '' (map status_str ds)"
| "denial_message f t r (RoleNotAuthorized rs) =
     ''Role '' @ quoted (role_str r)
       @ '' is not authorized for this transition. Required: ''
       @ join '' or '' (map role_str rs)"


definition risk_window :: "priority \<Rightarrow> int" where
  "risk_window p =
    (case p of Critical \<Rightarrow> 1 | High \<Rightarrow> 2 | Medium \<Rightarrow> 6 | Low \<Rightarrow> 12) * 3600000"

text \<open>
  \<open>classify\<close> as the specification words it: closed; else late when \<open>now \<ge> dueAt\<close>; else
  at risk when \<open>dueAt - now\<close> is below the risk window of the priority; else on track.
  \<open>late\<close> is the word of the consumer, \<open>overdue\<close> or \<open>breached\<close>.
\<close>

definition classify :: "string \<Rightarrow> int \<Rightarrow> int \<Rightarrow> priority \<Rightarrow> status \<Rightarrow> string" where
  "classify late now dueAt p st =
    (if st = Closed then ''closed''
     else if now \<ge> dueAt then late
     else if dueAt - now < risk_window p then ''at_risk''
     else ''on_track'')"


text \<open>
  The answer of \<open>canTransition\<close> that the specification expects for each of the hundred
  triples, with the message of a denial written out: \<open>None\<close> is Allowed. A message about a
  missing edge lists the valid destinations of the source, a message about the role names
  the roles the edge requires.
\<close>

fun expected_reason :: "status \<Rightarrow> status \<Rightarrow> role \<Rightarrow> string option" where
  "expected_reason Closed t r = Some ''No transitions available from status: Closed''"
| "expected_reason Created Assigned Manager = None"
| "expected_reason Created Assigned Admin = None"
| "expected_reason Created Assigned Requester =
     Some ''Role 'requester' is not authorized for this transition. Required: manager or admin''"
| "expected_reason Created Assigned Analyst =
     Some ''Role 'analyst' is not authorized for this transition. Required: manager or admin''"
| "expected_reason Created Created r =
     Some ''Cannot transition from 'Created' to 'Created'. Valid destinations: Assigned''"
| "expected_reason Created InProgress r =
     Some ''Cannot transition from 'Created' to 'In Progress'. Valid destinations: Assigned''"
| "expected_reason Created UnderReview r =
     Some ''Cannot transition from 'Created' to 'Under Review'. Valid destinations: Assigned''"
| "expected_reason Created Closed r =
     Some ''Cannot transition from 'Created' to 'Closed'. Valid destinations: Assigned''"
| "expected_reason Assigned InProgress Analyst = None"
| "expected_reason Assigned InProgress Requester =
     Some ''Role 'requester' is not authorized for this transition. Required: analyst''"
| "expected_reason Assigned InProgress Manager =
     Some ''Role 'manager' is not authorized for this transition. Required: analyst''"
| "expected_reason Assigned InProgress Admin =
     Some ''Role 'admin' is not authorized for this transition. Required: analyst''"
| "expected_reason Assigned Created r =
     Some ''Cannot transition from 'Assigned' to 'Created'. Valid destinations: In Progress''"
| "expected_reason Assigned Assigned r =
     Some ''Cannot transition from 'Assigned' to 'Assigned'. Valid destinations: In Progress''"
| "expected_reason Assigned UnderReview r =
     Some ''Cannot transition from 'Assigned' to 'Under Review'. Valid destinations: In Progress''"
| "expected_reason Assigned Closed r =
     Some ''Cannot transition from 'Assigned' to 'Closed'. Valid destinations: In Progress''"
| "expected_reason InProgress UnderReview Analyst = None"
| "expected_reason InProgress UnderReview Requester =
     Some ''Role 'requester' is not authorized for this transition. Required: analyst''"
| "expected_reason InProgress UnderReview Manager =
     Some ''Role 'manager' is not authorized for this transition. Required: analyst''"
| "expected_reason InProgress UnderReview Admin =
     Some ''Role 'admin' is not authorized for this transition. Required: analyst''"
| "expected_reason InProgress Created r =
     Some ''Cannot transition from 'In Progress' to 'Created'. Valid destinations: Under Review''"
| "expected_reason InProgress Assigned r =
     Some ''Cannot transition from 'In Progress' to 'Assigned'. Valid destinations: Under Review''"
| "expected_reason InProgress InProgress r =
     Some ''Cannot transition from 'In Progress' to 'In Progress'. Valid destinations: Under Review''"
| "expected_reason InProgress Closed r =
     Some ''Cannot transition from 'In Progress' to 'Closed'. Valid destinations: Under Review''"
| "expected_reason UnderReview Closed Manager = None"
| "expected_reason UnderReview Closed Admin = None"
| "expected_reason UnderReview Closed Requester =
     Some ''Role 'requester' is not authorized for this transition. Required: manager or admin''"
| "expected_reason UnderReview Closed Analyst =
     Some ''Role 'analyst' is not authorized for this transition. Required: manager or admin''"
| "expected_reason UnderReview InProgress Manager = None"
| "expected_reason UnderReview InProgress Admin = None"
| "expected_reason UnderReview InProgress Requester =
     Some ''Role 'requester' is not authorized for this transition. Required: manager or admin''"
| "expected_reason UnderReview InProgress Analyst =
     Some ''Role 'analyst' is not authorized for this transition. Required: manager or admin''"
| "expected_reason UnderReview Created r =
     Some ''Cannot transition from 'Under Review' to 'Created'. Valid destinations: Closed, In Progress''"
| "expected_reason UnderReview Assigned r =
     Some ''Cannot transition from 'Under Review' to 'Assigned'. Valid destinations: Closed, In Progress''"
| "expected_reason UnderReview UnderReview r =
     Some ''Cannot transition from 'Under Review' to 'Under Review'. Valid destinations: Closed, In Progress''"

text \<open>
  The audit entries the claims speak of: the entry of a requested status change (query 2
  of the status route), the entry of an assignment (query 3 of the assignment route) and
  the entry of the automatic transition that follows it (query 4).
\<close>

definition status_change_entry ::
  "env \<Rightarrow> req_user \<Rightarrow> nat \<Rightarrow> status \<Rightarrow> status \<Rightarrow> audit_entry" where
  "status_change_entry e user cid previousStatus targetStatus =
    \<lparr>log_case_id = cid, action = STATUS_CHANGED,
     previous_status = Some previousStatus, new_status = Some targetStatus,
     previous_assignee = None, new_assignee = None,
     performed_by = req_id user, log_details = EmptyDetails,
     log_timestamp = db_now e 2\<rparr>"

definition assignment_entry ::
  "env \<Rightarrow> req_user \<Rightarrow> nat \<Rightarrow> nat \<Rightarrow> case_row \<Rightarrow> user_row \<Rightarrow> audit_entry" where
  "assignment_entry e user cid assigneeId c u =
    \<lparr>log_case_id = cid, action = CASE_ASSIGNED,
     previous_status = None, new_status = None,
     previous_assignee = assigned_to c, new_assignee = Some assigneeId,
     performed_by = req_id user, log_details = AssigneeName (user_name u),
     log_timestamp = db_now e 3\<rparr>"

definition auto_transition_entry :: "env \<Rightarrow> req_user \<Rightarrow> nat \<Rightarrow> audit_entry" where
  "auto_transition_entry e user cid =
    \<lparr>log_case_id = cid, action = STATUS_CHANGED,
     previous_status = Some Created, new_status = Some Assigned,
     previous_assignee = None, new_assignee = None,
     performed_by = req_id user,
     log_details = Reason ''Auto-transitioned on assignment'',
     log_timestamp = db_now e 4\<rparr>"

section \<open>A sample database\<close>

text \<open>
  Concrete data for the instances below: case 1 is new and unassigned, case 2 is under
  review and assigned to analyst 3; user 2 is a manager, users 3 and 4 are analysts. In
  \<open>sample_env k\<close> the clocks read two hours after the epoch in a zone that is always one
  hour east of UTC, the database holds a date as its instant, and query \<open>n\<close> rejects
  exactly when \<open>k = Some n\<close>.
\<close>

definition sample_created :: case_row where
  "sample_created =
    \<lparr>case_id = ''CASE-01000'', title = ''Printer offline'', description = None,
     category = IT, priority = High, status = Created, assigned_to = None,
     created_by = 1, sla_due_at = Some 86400000, created_at = 0, updated_at = 0\<rparr>"

definition sample_review :: case_row where
  "sample_review =
    \<lparr>case_id = ''CASE-01001'', title = ''Payroll error'', description = Some ''March run'',
     category = Finance, priority = Critical, status = UnderReview, assigned_to = Some 3,
     created_by = 1, sla_due_at = Some 14400000, created_at = 0, updated_at = 60000\<rparr>"

definition sample_db :: db where
  "sample_db =
    \<lparr>cases = [1 \<mapsto> sample_created, 2 \<mapsto> sample_review],
     users = [1 \<mapsto> \<lparr>user_name = ''Rita'', user_role = Requester\<rparr>,
              2 \<mapsto> \<lparr>user_name = ''Mona'', user_role = Manager\<rparr>,
              3 \<mapsto> \<lparr>user_name = ''Ana'', user_role = Analyst\<rparr>,
              4 \<mapsto> \<lparr>user_name = ''Ben'', user_role = Analyst\<rparr>],
     case_audit_log = []\<rparr>"

definition sample_env :: "nat option \<Rightarrow> env" where
  "sample_env k =
    \<lparr>clock_now = 7200000,
     zone = \<lparr>offset_at = (\<lambda>t. 3600000), offset_of_local = (\<lambda>w. 3600000)\<rparr>,
     to_timestamp = (\<lambda>t. t),
     db_now = (\<lambda>n. 7200000 + int n), fails = (\<lambda>n. k = Some n)\<rparr>"



definition sample_manager :: req_user where
  "sample_manager = \<lparr>req_id = 2, req_role = Manager\<rparr>"

section \<open>TransitionPolicy\<close>

lemma available_loop_filter:
  "available_loop entries r acc = acc @ map fst (filter (\<lambda>(t, rs). r \<in> set rs) entries)"
  by (induction entries r acc rule: available_loop.induct) auto

text \<open>
  Claim C1. For every triple (from, to, role), \<open>canTransition\<close> is valid exactly when
  (from, to) is one of the five declared edges and the role is in that edge's authorized
  set. Otherwise it is invalid with exactly one of three reasons: the source has no
  declared outgoing edge; the edge is not declared, and the message lists the valid
  destinations from the source; the role is not authorized, and the message names the
  required roles. The answer for each triple is the one written out in \<open>expected_reason\<close>,
  message included, and the three kinds of message start with different letters, so a
  caller can tell them apart.
\<close>

theorem canTransition_decision:
  "canTransition f t r =
     (case decide f t r of
        Allowed \<Rightarrow> \<lparr>valid = True, reason = None\<rparr>
      | Denied k \<Rightarrow> \<lparr>valid = False, reason = Some (denial_message f t r k)\<rparr>)
   \<and> (decide f t r = Allowed) = (\<exists>rs. (f, t, rs) \<in> set declared_edges \<and> r \<in> set rs)
   \<and> valid (canTransition f t r) = (\<exists>rs. (f, t, rs) \<in> set declared_edges \<and> r \<in> set rs)
   \<and> hd (denial_message f t r NoOutgoingEdges) = CHR ''N''
   \<and> hd (denial_message f t r (NotAnEdge ds)) = CHR ''C''
   \<and> hd (denial_message f t r (RoleNotAuthorized rs')) = CHR ''R''
   \<and> canTransition f t r =
     (case expected_reason f t r of
        None \<Rightarrow> \<lparr>valid = True, reason = None\<rparr>
      | Some m \<Rightarrow> \<lparr>valid = False, reason = Some m\<rparr>)
   \<and> (case decide f t r of
        Allowed \<Rightarrow> expected_reason f t r = None
      | Denied k \<Rightarrow> expected_reason f t r = Some (denial_message f t r k))"
proof -
  have code: "canTransition f t r =
     (case decide f t r of
        Allowed \<Rightarrow> \<lparr>valid = True, reason = None\<rparr>
      | Denied k \<Rightarrow> \<lparr>valid = False, reason = Some (denial_message f t r k)\<rparr>)"
    by (cases f; cases t; cases r;
        simp add: canTransition_def decide_def edges_from_def declared_edges_def
          TRANSITIONS_def)
  have allowed: "(decide f t r = Allowed)
      = (\<exists>rs. (f, t, rs) \<in> set declared_edges \<and> r \<in> set rs)"
    by (cases f; cases t; cases r; simp add: decide_def edges_from_def declared_edges_def)
  have "valid (canTransition f t r) = (decide f t r = Allowed)"
    unfolding code by (cases "decide f t r") simp_all
  moreover have written: "canTransition f t r =
     (case expected_reason f t r of
        None \<Rightarrow> \<lparr>valid = True, reason = None\<rparr>
      | Some m \<Rightarrow> \<lparr>valid = False, reason = Some m\<rparr>)"
    by (cases f; cases t; cases r; simp add: canTransition_def TRANSITIONS_def quoted_def)
  moreover have "case decide f t r of
        Allowed \<Rightarrow> expected_reason f t r = None
      | Denied k \<Rightarrow> expected_reason f t r = Some (denial_message f t r k)"
    using code written
    by (cases "decide f t r"; cases "expected_reason f t r"; simp)
  ultimately show ?thesis
    using code allowed by simp
qed

text \<open>
  Claim C8. For every status and role, \<open>getAvailableTransitions\<close> returns exactly the
  targets of the declared edges out of the status whose authorized roles contain the role,
  in the order of the transition table; it is empty from \<open>Closed\<close>, and it is empty exactly
  when the role matches no edge out of the status.
\<close>

theorem getAvailableTransitions_declared:
  "getAvailableTransitions f r =
     map (\<lambda>(a, b, rs). b) (filter (\<lambda>(a, b, rs). a = f \<and> r \<in> set rs) declared_edges)
   \<and> getAvailableTransitions Closed r = []
   \<and> (getAvailableTransitions f r = [])
       = (\<not> (\<exists>t rs. (f, t, rs) \<in> set declared_edges \<and> r \<in> set rs))"
proof -
  have order: "getAvailableTransitions g r =
     map (\<lambda>(a, b, rs). b) (filter (\<lambda>(a, b, rs). a = g \<and> r \<in> set rs) declared_edges)" for g
    by (cases g;
        simp add: getAvailableTransitions_def TRANSITIONS_def available_loop_filter
          declared_edges_def)
  have closed: "getAvailableTransitions Closed r = []"
    by (simp add: order declared_edges_def)
  have "(getAvailableTransitions f r = [])
       = (\<not> (\<exists>t rs. (f, t, rs) \<in> set declared_edges \<and> r \<in> set rs))"
    unfolding order by (auto simp add: filter_empty_conv)
  with order closed show ?thesis by simp
qed

section \<open>RequirementValidator\<close>

text \<open>
  Claim C5. For every case and target status, the list of \<open>validateTransitionRequirements\<close>
  holds a message if and only if the target is \<open>Assigned\<close> and the case has no assignee, or
  the target is \<open>Closed\<close> and the current status is not \<open>UnderReview\<close>; the check is valid
  exactly when the list is empty. A target \<open>Closed\<close> from a status other than \<open>UnderReview\<close>
  is rejected whatever the transition policy said. User ids come from a serial column and
  start at 1, so an assignee is never the id 0 (which JavaScript would take for no
  assignee).
\<close>

theorem validateTransitionRequirements_violations:
  assumes "assigned_to c \<noteq> Some 0"
  shows "errors (validateTransitionRequirements c t) =
      (if t = Assigned \<and> assigned_to c = None
       then [''Case must have an assignee before setting status to Assigned''] else [])
      @ (if t = Closed \<and> status c \<noteq> UnderReview
         then [''Case must be Under Review before closing''] else [])
    \<and> (errors (validateTransitionRequirements c t) \<noteq> [])
        = (t = Assigned \<and> assigned_to c = None \<or> t = Closed \<and> status c \<noteq> UnderReview)
    \<and> valid (validateTransitionRequirements c t)
        = (errors (validateTransitionRequirements c t) = [])
    \<and> (status c \<noteq> UnderReview \<longrightarrow>
          \<not> valid (validateTransitionRequirements c Closed)
          \<and> ''Case must be Under Review before closing''
              \<in> set (errors (validateTransitionRequirements c Closed)))"
  using assms
  by (cases "assigned_to c";
      simp add: validateTransitionRequirements_def falsy_id_def Let_def)

theorem validateTransitionRequirements_violations_witness:
  "assigned_to sample_created \<noteq> Some 0
   \<and> status sample_created \<noteq> UnderReview
   \<and> errors (validateTransitionRequirements sample_created Closed)
       = [''Case must be Under Review before closing'']
   \<and> errors (validateTransitionRequirements sample_created Assigned)
       = [''Case must have an assignee before setting status to Assigned'']
   \<and> \<not> valid (validateTransitionRequirements sample_created Closed)"
proof -
  have h: "assigned_to sample_created \<noteq> Some 0"
    by (simp add: sample_created_def)
  have s: "status sample_created \<noteq> UnderReview"
    by (simp add: sample_created_def)
  show ?thesis
    using h s
      validateTransitionRequirements_violations [OF h, of Closed]
      validateTransitionRequirements_violations [OF h, of Assigned]
    by (simp add: sample_created_def)
qed

section \<open>SlaClock\<close>








text \<open>
  Claim C6, as stated: a case that is not closed is overdue or breached when
  \<open>now \<ge> dueAt\<close>, and otherwise at risk within the risk window of its priority. It fails
  in the case list at \<open>now = dueAt\<close>: the query tests \<^verbatim>\<open>c.sla_due_at < NOW()\<close>, which is false
  there, and the case is at risk. It fails in the SLA-breach dashboard, the consumer that
  says \<open>breached\<close>, in the same way at \<open>now = dueAt\<close>; in its risk window, which is four hours
  for every priority (a Critical case due in two hours is at risk, a Low case due in six
  hours is on track); and for a closed case and a case due in thirty hours, which the
  dashboard does not list.
\<close>

theorem classify_counterexample:
  "classify ''overdue'' 7200000 7200000 Critical Created = ''overdue''
   \<and> sla_status 7200000 Created Critical (Some 7200000) = ''at_risk''
   \<and> classify ''breached'' 7200000 7200000 Critical Created = ''breached''
   \<and> sla_breaches_row 7200000 Created (Some 7200000) = Some ''at_risk''
   \<and> classify ''breached'' 0 7200000 Critical Created = ''on_track''
   \<and> sla_breaches_row 0 Created (Some 7200000) = Some ''at_risk''
   \<and> classify ''breached'' 0 21600000 Low Created = ''at_risk''
   \<and> sla_breaches_row 0 Created (Some 21600000) = Some ''on_track''
   \<and> classify ''breached'' 7200000 0 Critical Closed = ''closed''
   \<and> sla_breaches_row 7200000 Closed (Some 0) = None
   \<and> classify ''breached'' 0 108000000 Low Created = ''on_track''
   \<and> sla_breaches_row 0 Created (Some 108000000) = None"
  by (simp add: classify_def risk_window_def sla_status_def sla_breaches_row_def
      sla_breaches_where_def sla_breaches_status_def sql_lt_def is_true_def
      interval_hours_def msPerHour_def)

text \<open>
  Claim C6, amended. The classification has two vocabularies. In the case list, the rules
  apply in this order: a closed case is \<open>closed\<close> whatever its due date; otherwise the case
  is \<open>overdue\<close> if \<open>now > dueAt\<close>; otherwise it is \<open>at_risk\<close> if \<open>dueAt - now\<close> is below the
  risk window of its priority (Critical 1h, High 2h, Medium 6h, Low 12h), which includes
  \<open>dueAt = now\<close>; otherwise it is \<open>on_track\<close>. The pending-action lists use the same rules
  for the cases they show, none of which is closed. The SLA-breach dashboard lists the
  cases that are not closed and are due less than 24 hours from now: such a case is
  \<open>breached\<close> if \<open>now > dueAt\<close>; otherwise \<open>at_risk\<close> if \<open>dueAt - now\<close> is below four hours,
  whatever its priority; otherwise \<open>on_track\<close>. For a Critical case that is not closed,
  \<open>dueAt = now + 30min\<close> gives \<open>at_risk\<close> in both, and \<open>dueAt = now - 1s\<close> gives \<open>overdue\<close> in
  the list and \<open>breached\<close> in the dashboard.
\<close>

theorem sla_status_rules:
  "sla_status now st p (Some dueAt) =
     (if st = Closed then ''closed''
      else if now > dueAt then ''overdue''
      else if dueAt - now < risk_window p then ''at_risk''
      else ''on_track'')
   \<and> sla_status now Closed p due = ''closed''
   \<and> sla_status now st Critical (Some (now + 30 * 60000))
       = (if st = Closed then ''closed'' else ''at_risk'')
   \<and> sla_status now st Critical (Some (now - 1000))
       = (if st = Closed then ''closed'' else ''overdue'')
   \<and> pending_sla_status now p (Some dueAt) =
     (if now > dueAt then ''overdue''
      else if dueAt - now < risk_window p then ''at_risk''
      else ''on_track'')
   \<and> sla_breaches_row now st (Some dueAt) =
     (if st = Closed \<or> now + 24 * 3600000 \<le> dueAt then None
      else if now > dueAt then Some ''breached''
      else if dueAt - now < 4 * 3600000 then Some ''at_risk''
      else Some ''on_track'')
   \<and> sla_breaches_row now st (Some (now + 30 * 60000))
       = (if st = Closed then None else Some ''at_risk'')
   \<and> sla_breaches_row now st (Some (now - 1000))
       = (if st = Closed then None else Some ''breached'')"
proof -
  have list: "sla_status now st p (Some d) =
     (if st = Closed then ''closed''
      else if now > d then ''overdue''
      else if d - now < risk_window p then ''at_risk''
      else ''on_track'')" for st p d
    by (cases p;
        simp add: sla_status_def sql_lt_def is_true_def interval_hours_def msPerHour_def
          risk_window_def)
  have closed: "sla_status now Closed p due = ''closed''"
    by (simp add: sla_status_def)
  have pending: "pending_sla_status now p (Some dueAt) =
     (if now > dueAt then ''overdue''
      else if dueAt - now < risk_window p then ''at_risk''
      else ''on_track'')"
    by (cases p;
        simp add: pending_sla_status_def sql_lt_def is_true_def interval_hours_def
          msPerHour_def risk_window_def)
  have dash: "sla_breaches_row now st (Some d) =
     (if st = Closed \<or> now + 24 * 3600000 \<le> d then None
      else if now > d then Some ''breached''
      else if d - now < 4 * 3600000 then Some ''at_risk''
      else Some ''on_track'')" for d
    by (simp add: sla_breaches_row_def sla_breaches_where_def sla_breaches_status_def
        sql_lt_def is_true_def interval_hours_def msPerHour_def)
  show ?thesis
    unfolding list dash
    using closed pending by (simp add: risk_window_def)
qed

section \<open>Priority edits\<close>

lemmas audit_defs =
  logAssignment_def logStatusChange_def logCaseUpdate_def AuditService_log_def








section \<open>AssignmentCoordinator\<close>

text \<open>
  Claim C3. For every assignment by a manager or an admin of an existing analyst to a case
  whose status is \<open>Created\<close>, when no query rejects: the case gets the assignee and the
  status \<open>Assigned\<close> (the route consults neither \<open>canTransition\<close> nor the requirement
  validator), and exactly two audit entries are appended, in this order: the assignment
  entry, then a status-change entry from \<open>Created\<close> to \<open>Assigned\<close> whose details give the
  reason \<open>Auto-transitioned on assignment\<close>.
\<close>

theorem put_assign_created:
  assumes "req_role user = Manager \<or> req_role user = Admin"
    and "cases d cid = Some c" and "status c = Created"
    and "users d assigneeId = Some u" and "user_role u = Analyst"
    and "\<forall>n. \<not> fails e n"
  shows "put_assign e user cid assigneeId d =
    (Ok (''Case assigned to '' @ user_name u)
        (c\<lparr>assigned_to := Some assigneeId, status := Assigned, updated_at := db_now e 2\<rparr>),
     d\<lparr>cases := (cases d)(cid \<mapsto>
          c\<lparr>assigned_to := Some assigneeId, status := Assigned,
            updated_at := db_now e 2\<rparr>),
       case_audit_log := case_audit_log d @
         [assignment_entry e user cid assigneeId c u,
          auto_transition_entry e user cid]\<rparr>)"
  using assms
  by (auto simp add: put_assign_def audit_defs Let_def assignment_entry_def
      auto_transition_entry_def)

theorem put_assign_created_witness:
  "req_role sample_manager = Manager
   \<and> cases sample_db 1 = Some sample_created
   \<and> status sample_created = Created
   \<and> map_option user_role (users sample_db 3) = Some Analyst
   \<and> (\<forall>n. \<not> fails (sample_env None) n)
   \<and> map_option status
        (cases (snd (put_assign (sample_env None) sample_manager 1 3 sample_db)) 1)
       = Some Assigned
   \<and> map_option assigned_to
        (cases (snd (put_assign (sample_env None) sample_manager 1 3 sample_db)) 1)
       = Some (Some 3)
   \<and> map action
        (case_audit_log (snd (put_assign (sample_env None) sample_manager 1 3 sample_db)))
       = [CASE_ASSIGNED, STATUS_CHANGED]
   \<and> map log_details
        (case_audit_log (snd (put_assign (sample_env None) sample_manager 1 3 sample_db)))
       = [AssigneeName ''Ana'', Reason ''Auto-transitioned on assignment'']"
proof -
  have r: "req_role sample_manager = Manager \<or> req_role sample_manager = Admin"
    by (simp add: sample_manager_def)
  have c: "cases sample_db 1 = Some sample_created"
    by (simp add: sample_db_def)
  have s: "status sample_created = Created"
    by (simp add: sample_created_def)
  have u: "users sample_db 3 = Some \<lparr>user_name = ''Ana'', user_role = Analyst\<rparr>"
    by (simp add: sample_db_def)
  have a: "user_role \<lparr>user_name = ''Ana'', user_role = Analyst\<rparr> = Analyst"
    by simp
  have f: "\<forall>n. \<not> fails (sample_env None) n"
    by (simp add: sample_env_def)
  show ?thesis
    using s f put_assign_created [OF r c s u a f]
    by (simp add: sample_manager_def sample_db_def assignment_entry_def
        auto_transition_entry_def)
qed

text \<open>
  Claim C4, as stated: an assignment to a case whose status is not \<open>Created\<close> changes only
  the assignee field of the case. It fails for the field \<^verbatim>\<open>updated_at\<close>, which the same
  \<^verbatim>\<open>UPDATE\<close> sets to \<^verbatim>\<open>NOW()\<close>.
\<close>

theorem put_assign_frame_counterexample:
  "status sample_review \<noteq> Created
   \<and> cases (snd (put_assign (sample_env None) sample_manager 2 4 sample_db)) 2
       = Some (sample_review\<lparr>assigned_to := Some 4, updated_at := 7200002\<rparr>)
   \<and> cases (snd (put_assign (sample_env None) sample_manager 2 4 sample_db)) 2
       \<noteq> Some (sample_review\<lparr>assigned_to := Some 4\<rparr>)"
  by (simp add: put_assign_def audit_defs Let_def sample_db_def sample_env_def
      sample_manager_def sample_review_def)

text \<open>
  Claim C4, amended. For every assignment by a manager or an admin of an existing analyst
  to a case whose status is not \<open>Created\<close> (\<open>Closed\<close> included), when no query rejects: of
  the case only the assignee and the time of the last update change (the status and every
  other field keep their values), and exactly one audit entry is appended, which records
  the previous assignee, also when there was none.
\<close>

theorem put_assign_reassign:
  assumes "req_role user = Manager \<or> req_role user = Admin"
    and "cases d cid = Some c" and "status c \<noteq> Created"
    and "users d assigneeId = Some u" and "user_role u = Analyst"
    and "\<forall>n. \<not> fails e n"
  shows "put_assign e user cid assigneeId d =
    (Ok (''Case assigned to '' @ user_name u)
        (c\<lparr>assigned_to := Some assigneeId, updated_at := db_now e 2\<rparr>),
     d\<lparr>cases := (cases d)(cid \<mapsto>
          c\<lparr>assigned_to := Some assigneeId, updated_at := db_now e 2\<rparr>),
       case_audit_log := case_audit_log d @
         [assignment_entry e user cid assigneeId c u]\<rparr>)
    \<and> previous_assignee (assignment_entry e user cid assigneeId c u) = assigned_to c"
  using assms
  by (auto simp add: put_assign_def audit_defs Let_def assignment_entry_def)

theorem put_assign_reassign_witness:
  "req_role sample_manager = Manager
   \<and> cases (sample_db\<lparr>cases := [5 \<mapsto> sample_created\<lparr>status := Closed\<rparr>]\<rparr>) 5
       = Some (sample_created\<lparr>status := Closed\<rparr>)
   \<and> status (sample_created\<lparr>status := Closed\<rparr>) \<noteq> Created
   \<and> assigned_to (sample_created\<lparr>status := Closed\<rparr>) = None
   \<and> map_option user_role (users sample_db 4) = Some Analyst
   \<and> (\<forall>n. \<not> fails (sample_env None) n)
   \<and> cases (snd (put_assign (sample_env None) sample_manager 5 4
          (sample_db\<lparr>cases := [5 \<mapsto> sample_created\<lparr>status := Closed\<rparr>]\<rparr>))) 5
       = Some (sample_created\<lparr>status := Closed, assigned_to := Some 4,
           updated_at := 7200002\<rparr>)
   \<and> map (\<lambda>x. (action x, previous_assignee x, new_assignee x))
        (case_audit_log (snd (put_assign (sample_env None) sample_manager 5 4
          (sample_db\<lparr>cases := [5 \<mapsto> sample_created\<lparr>status := Closed\<rparr>]\<rparr>))))
       = [(CASE_ASSIGNED, None, Some 4)]"
proof -
  let ?c = "sample_created\<lparr>status := Closed\<rparr>"
  let ?d = "sample_db\<lparr>cases := [5 \<mapsto> ?c]\<rparr>"
  have r: "req_role sample_manager = Manager \<or> req_role sample_manager = Admin"
    by (simp add: sample_manager_def)
  have c: "cases ?d 5 = Some ?c"
    by simp
  have s: "status ?c \<noteq> Created"
    by simp
  have u: "users ?d 4 = Some \<lparr>user_name = ''Ben'', user_role = Analyst\<rparr>"
    by (simp add: sample_db_def)
  have a: "user_role \<lparr>user_name = ''Ben'', user_role = Analyst\<rparr> = Analyst"
    by simp
  have f: "\<forall>n. \<not> fails (sample_env None) n"
    by (simp add: sample_env_def)
  show ?thesis
    using s f put_assign_reassign [OF r c s u a f]
    by (simp add: sample_manager_def sample_db_def sample_created_def sample_env_def
        assignment_entry_def)
qed

section \<open>Case update and audit append\<close>

text \<open>
  Claim C2, as stated: the update of the case row and the audit append form one unit, so
  that a failing audit write leaves the case unchanged. It fails: the \<^verbatim>\<open>UPDATE\<close> and each
  \<^verbatim>\<open>INSERT\<close> are queries of their own, with no transaction around them. When the audit
  write of a transition rejects, the request fails, the case is already \<open>Closed\<close> and the
  ledger has no entry of it.
\<close>

theorem put_status_audit_failure_counterexample:
  "map_option status (cases sample_db 2) = Some UnderReview
   \<and> fails (sample_env (Some 2)) 2
   \<and> fst (put_status (sample_env (Some 2)) sample_manager 2 Closed sample_db) = Failed
   \<and> map_option status
        (cases (snd (put_status (sample_env (Some 2)) sample_manager 2 Closed sample_db)) 2)
       = Some Closed
   \<and> case_audit_log (snd (put_status (sample_env (Some 2)) sample_manager 2 Closed sample_db))
       = []"
  by (simp add: put_status_def audit_defs Let_def sample_db_def sample_env_def
      sample_manager_def sample_review_def canTransition_def TRANSITIONS_def
      validateTransitionRequirements_def falsy_id_def)

text \<open>
  Claim C2, amended. For every status transition and every assignment that passes its
  checks, the update of the case row and the audit appends are separate writes made in
  this order, each durable by itself. If the update of the case row fails, the case is
  unchanged and no audit entry is recorded. If an audit write fails, the request fails,
  but the update of the case row stays, and so does an audit entry that the same request
  had already appended. If no write fails, the row is updated and the entries are appended
  (one for a transition; the assignment entry, and after it the automatic status change
  when the case was \<open>Created\<close>).
\<close>

theorem writes_are_separate:
  assumes "cases d cid = Some c"
    and "valid (canTransition (status c) t (req_role user))"
    and "valid (validateTransitionRequirements c t)"
    and "\<not> fails e 0"
    and "cases d' cid' = Some c'"
    and "req_role actor = Manager \<or> req_role actor = Admin"
    and "users d' a = Some u" and "user_role u = Analyst"
    and "\<not> fails e' 0" and "\<not> fails e' 1"
  shows
   "put_status e user cid t d =
      (if fails e 1 then (Failed, d)
       else if fails e 2 then
         (Failed, d\<lparr>cases := (cases d)(cid \<mapsto> c\<lparr>status := t, updated_at := db_now e 1\<rparr>)\<rparr>)
       else
         (Ok (''Case transitioned from '' @ quoted (status_str (status c))
               @ '' to '' @ quoted (status_str t))
             (c\<lparr>status := t, updated_at := db_now e 1\<rparr>),
          d\<lparr>cases := (cases d)(cid \<mapsto> c\<lparr>status := t, updated_at := db_now e 1\<rparr>),
            case_audit_log := case_audit_log d @
              [status_change_entry e user cid (status c) t]\<rparr>))
    \<and> put_assign e' actor cid' a d' =
      (if fails e' 2 then (Failed, d')
       else if fails e' 3 then
         (Failed, d'\<lparr>cases := (cases d')(cid' \<mapsto>
            c'\<lparr>assigned_to := Some a,
               status := (if status c' = Created then Assigned else status c'),
               updated_at := db_now e' 2\<rparr>)\<rparr>)
       else if status c' = Created \<and> fails e' 4 then
         (Failed, d'\<lparr>cases := (cases d')(cid' \<mapsto>
            c'\<lparr>assigned_to := Some a, status := Assigned, updated_at := db_now e' 2\<rparr>),
            case_audit_log := case_audit_log d' @
              [assignment_entry e' actor cid' a c' u]\<rparr>)
       else
         (Ok (''Case assigned to '' @ user_name u)
             (c'\<lparr>assigned_to := Some a,
                status := (if status c' = Created then Assigned else status c'),
                updated_at := db_now e' 2\<rparr>),
          d'\<lparr>cases := (cases d')(cid' \<mapsto>
            c'\<lparr>assigned_to := Some a,
               status := (if status c' = Created then Assigned else status c'),
               updated_at := db_now e' 2\<rparr>),
            case_audit_log := case_audit_log d' @
              (assignment_entry e' actor cid' a c' u
               # (if status c' = Created then [auto_transition_entry e' actor cid']
                  else []))\<rparr>))"
proof -
  have transition: "put_status e user cid t d =
      (if fails e 1 then (Failed, d)
       else if fails e 2 then
         (Failed, d\<lparr>cases := (cases d)(cid \<mapsto> c\<lparr>status := t, updated_at := db_now e 1\<rparr>)\<rparr>)
       else
         (Ok (''Case transitioned from '' @ quoted (status_str (status c))
               @ '' to '' @ quoted (status_str t))
             (c\<lparr>status := t, updated_at := db_now e 1\<rparr>),
          d\<lparr>cases := (cases d)(cid \<mapsto> c\<lparr>status := t, updated_at := db_now e 1\<rparr>),
            case_audit_log := case_audit_log d @
              [status_change_entry e user cid (status c) t]\<rparr>))"
    using assms(1-4)
    by (simp add: put_status_def audit_defs Let_def status_change_entry_def)
  have assignment: "put_assign e' actor cid' a d' =
      (if fails e' 2 then (Failed, d')
       else if fails e' 3 then
         (Failed, d'\<lparr>cases := (cases d')(cid' \<mapsto>
            c'\<lparr>assigned_to := Some a,
               status := (if status c' = Created then Assigned else status c'),
               updated_at := db_now e' 2\<rparr>)\<rparr>)
       else if status c' = Created \<and> fails e' 4 then
         (Failed, d'\<lparr>cases := (cases d')(cid' \<mapsto>
            c'\<lparr>assigned_to := Some a, status := Assigned, updated_at := db_now e' 2\<rparr>),
            case_audit_log := case_audit_log d' @
              [assignment_entry e' actor cid' a c' u]\<rparr>)
       else
         (Ok (''Case assigned to '' @ user_name u)
             (c'\<lparr>assigned_to := Some a,
                status := (if status c' = Created then Assigned else status c'),
                updated_at := db_now e' 2\<rparr>),
          d'\<lparr>cases := (cases d')(cid' \<mapsto>
            c'\<lparr>assigned_to := Some a,
               status := (if status c' = Created then Assigned else status c'),
               updated_at := db_now e' 2\<rparr>),
            case_audit_log := case_audit_log d' @
              (assignment_entry e' actor cid' a c' u
               # (if status c' = Created then [auto_transition_entry e' actor cid']
                  else []))\<rparr>))"
    using assms(5-10)
    by (auto simp add: put_assign_def audit_defs Let_def assignment_entry_def
        auto_transition_entry_def)
  from transition assignment show ?thesis by simp
qed

theorem writes_are_separate_witness:
  "cases sample_db 2 = Some sample_review
   \<and> valid (canTransition (status sample_review) Closed (req_role sample_manager))
   \<and> valid (validateTransitionRequirements sample_review Closed)
   \<and> cases sample_db 1 = Some sample_created
   \<and> map_option user_role (users sample_db 3) = Some Analyst
   \<and> fst (put_status (sample_env (Some 2)) sample_manager 2 Closed sample_db) = Failed
   \<and> map_option status
        (cases (snd (put_status (sample_env (Some 2)) sample_manager 2 Closed sample_db)) 2)
       = Some Closed
   \<and> fst (put_assign (sample_env (Some 4)) sample_manager 1 3 sample_db) = Failed
   \<and> map_option status
        (cases (snd (put_assign (sample_env (Some 4)) sample_manager 1 3 sample_db)) 1)
       = Some Assigned
   \<and> map action
        (case_audit_log (snd (put_assign (sample_env (Some 4)) sample_manager 1 3 sample_db)))
       = [CASE_ASSIGNED]"
proof -
  have c: "cases sample_db 2 = Some sample_review"
    by (simp add: sample_db_def)
  have p: "valid (canTransition (status sample_review) Closed (req_role sample_manager))"
    by (simp add: canTransition_def TRANSITIONS_def sample_review_def sample_manager_def)
  have v: "valid (validateTransitionRequirements sample_review Closed)"
    by (simp add: validateTransitionRequirements_def sample_review_def)
  have f0: "\<not> fails (sample_env (Some 2)) 0"
    by (simp add: sample_env_def)
  have c': "cases sample_db 1 = Some sample_created"
    by (simp add: sample_db_def)
  have r: "req_role sample_manager = Manager \<or> req_role sample_manager = Admin"
    by (simp add: sample_manager_def)
  have u: "users sample_db 3 = Some \<lparr>user_name = ''Ana'', user_role = Analyst\<rparr>"
    by (simp add: sample_db_def)
  have a: "user_role \<lparr>user_name = ''Ana'', user_role = Analyst\<rparr> = Analyst"
    by simp
  have g0: "\<not> fails (sample_env (Some 4)) 0" and g1: "\<not> fails (sample_env (Some 4)) 1"
    by (simp_all add: sample_env_def)
  show ?thesis
    using p v writes_are_separate [OF c p v f0 c' r u a g0 g1]
    by (simp add: sample_db_def sample_env_def sample_created_def assignment_entry_def)
qed

end
